theory Spec2Isabelle
  imports Main "HOL-Library.Word" "HOL-Library.Multiset"
begin

section \<open>The XCB client of \<open>crates/t-rec/resources/list.c\<close>\<close>

text \<open>
  \<open>list.c\<close> is one function, \<open>main\<close>: straight-line calls into the XCB client library
  followed by \<open>while (1) {}\<close>. The library itself is not part of the repository. Its
  answers (the connection handle, the setup, the generated id) are therefore a parameter
  of the model, the record \<open>xcb_env\<close>, and the theorems hold for every such environment.
  What the program does to the outside world is the sequence of library calls it makes,
  each with its arguments: the field \<open>calls\<close> of the program state.
\<close>

subsection \<open>C values\<close>

text \<open>A C pointer: \<open>NULL\<close>, which points at no object, or a pointer at an object.\<close>

datatype 'a ptr = NULL | Ptr 'a

text \<open>
  A string literal is an array of its characters followed by a terminating NUL;
  \<open>strlen\<close> (libc) counts the characters before the first NUL.
\<close>

definition string_literal :: "string \<Rightarrow> string" where
  "string_literal s = s @ [CHR 0x00]"

definition strlen :: "string \<Rightarrow> nat" where
  "strlen s = length (takeWhile (\<lambda>c. c \<noteq> CHR 0x00) s)"

subsection \<open>The types of \<open>xcb/xcb.h\<close> and \<open>xcb/xproto.h\<close> that \<open>main\<close> uses\<close>

type_synonym xcb_window_t = "32 word"
type_synonym xcb_visualid_t = "32 word"

text \<open>
  The connection is opaque to the program. The model keeps an identity and the error flag
  that \<open>xcb_connection_has_error\<close> would report: \<open>xcb_connect\<close> returns a handle also
  when it fails.
\<close>

record xcb_connection_t =
  conn_id :: nat
  has_error :: bool

text \<open>Of a screen, \<open>main\<close> reads two fields.\<close>

record xcb_screen_t =
  root :: xcb_window_t
  root_visual :: xcb_visualid_t

text \<open>
  Of the setup, only the list of screens (\<open>roots\<close>) matters here. The screens lie in
  memory at the end of the setup; \<open>beyond\<close> is what the memory after the last of them
  holds, as a read of a screen at that address finds it.
\<close>

record xcb_setup_t =
  roots :: "xcb_screen_t list"
  beyond :: xcb_screen_t

record xcb_screen_iterator_t =
  data :: "xcb_screen_t ptr"
  rem :: int

datatype xcb_window_class_t =
    XCB_WINDOW_CLASS_COPY_FROM_PARENT
  | XCB_WINDOW_CLASS_INPUT_OUTPUT
  | XCB_WINDOW_CLASS_INPUT_ONLY

datatype xcb_prop_mode_t =
    XCB_PROP_MODE_REPLACE
  | XCB_PROP_MODE_PREPEND
  | XCB_PROP_MODE_APPEND

text \<open>The predefined atoms that occur in \<open>main\<close> (the header declares many more).\<close>

datatype xcb_atom_enum_t =
    XCB_ATOM_NONE
  | XCB_ATOM_STRING
  | XCB_ATOM_WM_ICON_NAME
  | XCB_ATOM_WM_NAME

subsection \<open>Library calls\<close>

text \<open>The arguments of \<open>xcb_create_window\<close>, in the order of its prototype.\<close>

record create_window_args =
  cw_c :: xcb_connection_t
  cw_depth :: "8 word"
  cw_wid :: xcb_window_t
  cw_parent :: xcb_window_t
  cw_x :: "16 word"
  cw_y :: "16 word"
  cw_width :: "16 word"
  cw_height :: "16 word"
  cw_border_width :: "16 word"
  cw_class :: xcb_window_class_t
  cw_visual :: xcb_visualid_t
  cw_value_mask :: "32 word"
  cw_value_list :: "32 word list ptr"

text \<open>The arguments of \<open>xcb_change_property\<close>, in the order of its prototype.\<close>

record change_property_args =
  cp_c :: xcb_connection_t
  cp_mode :: xcb_prop_mode_t
  cp_window :: xcb_window_t
  cp_property :: xcb_atom_enum_t
  cp_type :: xcb_atom_enum_t
  cp_format :: "8 word"
  cp_data_len :: "32 word"
  cp_data :: string

text \<open>
  One constructor for each library function \<open>main\<close> calls, and for the functions the
  specification says it never calls (closing the connection, destroying or configuring a
  window, checking for errors, reading events).
\<close>

datatype xcb_call =
    Xcb_connect "string ptr" "int ptr"
  | Xcb_get_setup xcb_connection_t
  | Xcb_setup_roots_iterator xcb_setup_t
  | Xcb_generate_id xcb_connection_t
  | Xcb_create_window create_window_args
  | Xcb_change_property change_property_args
  | Xcb_map_window xcb_connection_t xcb_window_t
  | Xcb_flush xcb_connection_t
  | Xcb_disconnect xcb_connection_t
  | Xcb_destroy_window xcb_connection_t xcb_window_t
  | Xcb_configure_window xcb_connection_t xcb_window_t "16 word" "32 word list"
  | Xcb_connection_has_error xcb_connection_t
  | Xcb_request_check xcb_connection_t
  | Xcb_wait_for_event xcb_connection_t
  | Xcb_poll_for_event xcb_connection_t

text \<open>The name of the library function a call invokes.\<close>

fun call_name :: "xcb_call \<Rightarrow> string" where
  "call_name (Xcb_connect _ _) = ''xcb_connect''"
| "call_name (Xcb_get_setup _) = ''xcb_get_setup''"
| "call_name (Xcb_setup_roots_iterator _) = ''xcb_setup_roots_iterator''"
| "call_name (Xcb_generate_id _) = ''xcb_generate_id''"
| "call_name (Xcb_create_window _) = ''xcb_create_window''"
| "call_name (Xcb_change_property _) = ''xcb_change_property''"
| "call_name (Xcb_map_window _ _) = ''xcb_map_window''"
| "call_name (Xcb_flush _) = ''xcb_flush''"
| "call_name (Xcb_disconnect _) = ''xcb_disconnect''"
| "call_name (Xcb_destroy_window _ _) = ''xcb_destroy_window''"
| "call_name (Xcb_configure_window _ _ _ _) = ''xcb_configure_window''"
| "call_name (Xcb_connection_has_error _) = ''xcb_connection_has_error''"
| "call_name (Xcb_request_check _) = ''xcb_request_check''"
| "call_name (Xcb_wait_for_event _) = ''xcb_wait_for_event''"
| "call_name (Xcb_poll_for_event _) = ''xcb_poll_for_event''"

text \<open>
  The bytes a \<open>ChangeProperty\<close> request carries: \<open>data_len\<close> items of \<open>format\<close> bits
  each, read from \<open>data\<close>.
\<close>

definition property_bytes :: "change_property_args \<Rightarrow> string" where
  "property_bytes a = take (unat (cp_data_len a) * unat (cp_format a) div 8) (cp_data a)"

subsection \<open>What the library answers\<close>

text \<open>
  The three values the library hands back to \<open>main\<close>: the result of \<open>xcb_connect\<close>, the
  setup \<open>xcb_get_setup\<close> points at, and the result of \<open>xcb_generate_id\<close>.
\<close>

record xcb_env =
  connect_result :: xcb_connection_t
  get_setup_result :: xcb_setup_t
  generate_id_result :: xcb_window_t

text \<open>
  \<open>xcb_setup_roots_iterator\<close> returns an iterator whose \<open>data\<close> is the address where the
  screens of the setup begin and whose \<open>rem\<close> is their number. The address is never null.
  With at least one screen it is the address of the first screen. With no screen (the
  setup of a failed connection) it is the address just past the setup, and a read of a
  screen there finds what follows the setup: \<open>roots_begin\<close> is what a read through
  \<open>data\<close> finds.
\<close>

definition roots_begin :: "xcb_setup_t \<Rightarrow> xcb_screen_t" where
  "roots_begin R = (case roots R of [] \<Rightarrow> beyond R | s # _ \<Rightarrow> s)"

definition xcb_setup_roots_iterator :: "xcb_setup_t \<Rightarrow> xcb_screen_iterator_t" where
  "xcb_setup_roots_iterator R =
     \<lparr>data = Ptr (roots_begin R), rem = int (length (roots R))\<rparr>"

subsection \<open>The state of \<open>main\<close>\<close>

text \<open>One program point for each statement of \<open>main\<close>, named after what the statement does.\<close>

datatype pc =
    PC_connect
  | PC_screen
  | PC_generate_id
  | PC_create_window
  | PC_title
  | PC_set_title
  | PC_iconTitle
  | PC_set_iconTitle
  | PC_map_window
  | PC_flush
  | PC_loop
  | PC_return
  | PC_exit int
  | PC_fault

datatype screen_field = Field_root | Field_root_visual

text \<open>
  The local variables (\<open>None\<close> before their declaration is reached), the library calls
  made so far in the order they were made, and the reads made through the pointer
  \<open>screen\<close> so far. The reads are a multiset: the two of them are arguments of one call,
  and C does not say which argument is evaluated first.
\<close>

record config =
  pc :: pc
  connection :: "xcb_connection_t option"
  screen :: "xcb_screen_t ptr option"
  window :: "xcb_window_t option"
  title :: "string option"
  iconTitle :: "string option"
  calls :: "xcb_call list"
  screen_reads :: "screen_field multiset"

definition main_init :: config where
  "main_init =
     \<lparr>pc = PC_connect, connection = None, screen = None, window = None,
      title = None, iconTitle = None, calls = [], screen_reads = {#}\<rparr>"

definition call :: "xcb_call \<Rightarrow> config \<Rightarrow> config" where
  "call x s = s\<lparr>calls := calls s @ [x]\<rparr>"

text \<open>
  One statement of \<open>main\<close>. Reading \<open>screen->root\<close> through a null pointer is the
  null-pointer error; the model stops there, in \<open>PC_fault\<close>. The two states
  \<open>PC_exit\<close> and \<open>PC_fault\<close> have no successor. A statement reads a variable with
  \<open>the\<close>: it comes after the variable's declaration, so the variable holds a value
  (lemmas \<open>connect_calls\<close>, \<open>screen_var\<close> and \<open>window_var\<close> below). The cookies that
  \<open>xcb_create_window\<close>, \<open>xcb_change_property\<close> and \<open>xcb_map_window\<close> return, and the
  result of \<open>xcb_flush\<close>, are dropped by the program and have no place in the state.
\<close>

fun main_step :: "xcb_env \<Rightarrow> config \<Rightarrow> config" where
  \<open>main_step env s =
    (case pc s of
       PC_connect \<Rightarrow>
         \<comment> \<open>\<open>xcb_connection_t *connection = xcb_connect (NULL, NULL);\<close>\<close>
         (call (Xcb_connect NULL NULL) s)
           \<lparr>connection := Some (connect_result env), pc := PC_screen\<rparr>
     | PC_screen \<Rightarrow>
         \<comment> \<open>\<open>xcb_screen_t *screen = xcb_setup_roots_iterator (xcb_get_setup (connection)).data;\<close>\<close>
         (let c = the (connection s);
              R = get_setup_result env;
              s1 = call (Xcb_get_setup c) s;
              s2 = call (Xcb_setup_roots_iterator R) s1
          in s2\<lparr>screen := Some (data (xcb_setup_roots_iterator R)), pc := PC_generate_id\<rparr>)
     | PC_generate_id \<Rightarrow>
         \<comment> \<open>\<open>xcb_window_t window = xcb_generate_id (connection);\<close>\<close>
         (call (Xcb_generate_id (the (connection s))) s)
           \<lparr>window := Some (generate_id_result env), pc := PC_create_window\<rparr>
     | PC_create_window \<Rightarrow>
         \<comment> \<open>\<open>xcb_create_window (connection, 0, window, screen->root, 0, 0, 250, 150, 10,
               XCB_WINDOW_CLASS_INPUT_OUTPUT, screen->root_visual, 0, NULL);\<close>\<close>
         (case the (screen s) of
            NULL \<Rightarrow> s\<lparr>pc := PC_fault\<rparr>
          | Ptr scr \<Rightarrow>
              (call (Xcb_create_window
                 \<lparr>cw_c = the (connection s),
                  cw_depth = 0,
                  cw_wid = the (window s),
                  cw_parent = root scr,
                  cw_x = 0, cw_y = 0,
                  cw_width = 250, cw_height = 150,
                  cw_border_width = 10,
                  cw_class = XCB_WINDOW_CLASS_INPUT_OUTPUT,
                  cw_visual = root_visual scr,
                  cw_value_mask = 0, cw_value_list = NULL\<rparr>) s)
                \<lparr>screen_reads := screen_reads s + {#Field_root, Field_root_visual#},
                 pc := PC_title\<rparr>)
     | PC_title \<Rightarrow>
         \<comment> \<open>\<open>char *title = "Hello World !";\<close>\<close>
         s\<lparr>title := Some (string_literal ''Hello World !''), pc := PC_set_title\<rparr>
     | PC_set_title \<Rightarrow>
         \<comment> \<open>\<open>xcb_change_property (connection, XCB_PROP_MODE_REPLACE, window, XCB_ATOM_WM_NAME,
               XCB_ATOM_STRING, 8, strlen (title), title);\<close>\<close>
         (call (Xcb_change_property
            \<lparr>cp_c = the (connection s),
             cp_mode = XCB_PROP_MODE_REPLACE,
             cp_window = the (window s),
             cp_property = XCB_ATOM_WM_NAME,
             cp_type = XCB_ATOM_STRING,
             cp_format = 8,
             cp_data_len = of_nat (strlen (the (title s))),
             cp_data = the (title s)\<rparr>) s)
           \<lparr>pc := PC_iconTitle\<rparr>
     | PC_iconTitle \<Rightarrow>
         \<comment> \<open>\<open>char *iconTitle = "Hello World ! (iconified)";\<close>\<close>
         s\<lparr>iconTitle := Some (string_literal ''Hello World ! (iconified)''),
           pc := PC_set_iconTitle\<rparr>
     | PC_set_iconTitle \<Rightarrow>
         \<comment> \<open>\<open>xcb_change_property (connection, XCB_PROP_MODE_REPLACE, window,
               XCB_ATOM_WM_ICON_NAME, XCB_ATOM_STRING, 8, strlen(iconTitle), iconTitle);\<close>\<close>
         (call (Xcb_change_property
            \<lparr>cp_c = the (connection s),
             cp_mode = XCB_PROP_MODE_REPLACE,
             cp_window = the (window s),
             cp_property = XCB_ATOM_WM_ICON_NAME,
             cp_type = XCB_ATOM_STRING,
             cp_format = 8,
             cp_data_len = of_nat (strlen (the (iconTitle s))),
             cp_data = the (iconTitle s)\<rparr>) s)
           \<lparr>pc := PC_map_window\<rparr>
     | PC_map_window \<Rightarrow>
         \<comment> \<open>\<open>xcb_map_window (connection, window);\<close>\<close>
         (call (Xcb_map_window (the (connection s)) (the (window s))) s)\<lparr>pc := PC_flush\<rparr>
     | PC_flush \<Rightarrow>
         \<comment> \<open>\<open>xcb_flush (connection);\<close>\<close>
         (call (Xcb_flush (the (connection s))) s)\<lparr>pc := PC_loop\<rparr>
     | PC_loop \<Rightarrow>
         \<comment> \<open>\<open>while (1) {}\<close>: test the condition, run the empty body, come back\<close>
         (if (1::int) \<noteq> 0 then s\<lparr>pc := PC_loop\<rparr> else s\<lparr>pc := PC_return\<rparr>)
     | PC_return \<Rightarrow>
         \<comment> \<open>\<open>return 0;\<close>\<close>
         s\<lparr>pc := PC_exit 0\<rparr>
     | PC_exit r \<Rightarrow> s
     | PC_fault \<Rightarrow> s)\<close>

text \<open>The state of \<open>main\<close> after \<open>n\<close> steps.\<close>

fun main_exec :: "nat \<Rightarrow> xcb_env \<Rightarrow> config" where
  "main_exec 0 env = main_init"
| "main_exec (Suc n) env = main_step env (main_exec n env)"

text \<open>The value \<open>main\<close> has returned within \<open>n\<close> steps, if it has returned.\<close>

definition main :: "nat \<Rightarrow> xcb_env \<Rightarrow> int option" where
  "main n env = (case pc (main_exec n env) of PC_exit r \<Rightarrow> Some r | _ \<Rightarrow> None)"

subsection \<open>Observations on a state\<close>

text \<open>The windows created so far, and the properties changed so far, as requested.\<close>

definition created_windows :: "config \<Rightarrow> create_window_args list" where
  "created_windows s = [a. Xcb_create_window a \<leftarrow> calls s]"

definition changed_properties :: "config \<Rightarrow> change_property_args list" where
  "changed_properties s = [a. Xcb_change_property a \<leftarrow> calls s]"

text \<open>
  Two environments to run the program in: a connection that succeeded, with one screen in
  its setup, and a connection that failed, with no screen in its setup and 6 and 0 in the
  memory that follows.
\<close>

definition example_env :: xcb_env where
  "example_env =
     \<lparr>connect_result = \<lparr>conn_id = 1, has_error = False\<rparr>,
      get_setup_result =
        \<lparr>roots = [\<lparr>root = 0x123, root_visual = 0x21\<rparr>],
         beyond = \<lparr>root = 0, root_visual = 0\<rparr>\<rparr>,
      generate_id_result = 0x400000\<rparr>"

definition example_env_no_screen :: xcb_env where
  "example_env_no_screen =
     \<lparr>connect_result = \<lparr>conn_id = 2, has_error = True\<rparr>,
      get_setup_result = \<lparr>roots = [], beyond = \<lparr>root = 0x6, root_visual = 0x0\<rparr>\<rparr>,
      generate_id_result = 0xFFFFFFFF\<rparr>"

section \<open>The run of \<open>main\<close>, statement by statement\<close>

text \<open>
  Each lemma below is one statement of \<open>main\<close>: the state after it, written as the change
  to the state before it.
\<close>

lemma main_exec_numeral:
  "main_exec (numeral k) env = main_step env (main_exec (pred_numeral k) env)"
  by (simp add: numeral_eq_Suc)

lemma exec_1:
  "main_exec (Suc 0) env =
     main_init\<lparr>connection := Some (connect_result env),
               calls := [Xcb_connect NULL NULL], pc := PC_screen\<rparr>"
  by (simp add: main_init_def call_def)

lemma exec_2:
  "main_exec 2 env =
     (main_exec (Suc 0) env)
       \<lparr>screen := Some (Ptr (roots_begin (get_setup_result env))),
        calls := calls (main_exec (Suc 0) env) @
          [Xcb_get_setup (connect_result env),
           Xcb_setup_roots_iterator (get_setup_result env)],
        pc := PC_generate_id\<rparr>"
  by (subst main_exec_numeral)
     (simp add: exec_1 main_init_def call_def Let_def xcb_setup_roots_iterator_def)

lemma exec_3:
  "main_exec 3 env =
     (main_exec 2 env)
       \<lparr>window := Some (generate_id_result env),
        calls := calls (main_exec 2 env) @ [Xcb_generate_id (connect_result env)],
        pc := PC_create_window\<rparr>"
  by (subst main_exec_numeral) (simp add: exec_2 exec_1 main_init_def call_def)

lemma exec_4:
  "main_exec 4 env =
     (main_exec 3 env)
       \<lparr>calls := calls (main_exec 3 env) @
          [Xcb_create_window
             \<lparr>cw_c = connect_result env, cw_depth = 0, cw_wid = generate_id_result env,
              cw_parent = root (roots_begin (get_setup_result env)),
              cw_x = 0, cw_y = 0, cw_width = 250, cw_height = 150,
              cw_border_width = 10, cw_class = XCB_WINDOW_CLASS_INPUT_OUTPUT,
              cw_visual = root_visual (roots_begin (get_setup_result env)),
              cw_value_mask = 0, cw_value_list = NULL\<rparr>],
        screen_reads := {#Field_root, Field_root_visual#},
        pc := PC_title\<rparr>"
  by (subst main_exec_numeral)
     (simp add: exec_3 exec_2 exec_1 main_init_def call_def)

lemma exec_5:
  "main_exec 5 env =
     (main_exec 4 env)\<lparr>title := Some (string_literal ''Hello World !''), pc := PC_set_title\<rparr>"
  by (subst main_exec_numeral) (simp add: exec_4 exec_3 exec_2 exec_1 main_init_def)

lemma exec_6:
  "main_exec 6 env =
     (main_exec 5 env)
       \<lparr>calls := calls (main_exec 5 env) @
          [Xcb_change_property
             \<lparr>cp_c = connect_result env, cp_mode = XCB_PROP_MODE_REPLACE,
              cp_window = generate_id_result env, cp_property = XCB_ATOM_WM_NAME,
              cp_type = XCB_ATOM_STRING, cp_format = 8,
              cp_data_len = of_nat (strlen (string_literal ''Hello World !'')),
              cp_data = string_literal ''Hello World !''\<rparr>],
        pc := PC_iconTitle\<rparr>"
  by (subst main_exec_numeral)
     (simp add: exec_5 exec_4 exec_3 exec_2 exec_1 main_init_def call_def)

lemma exec_7:
  "main_exec 7 env =
     (main_exec 6 env)
       \<lparr>iconTitle := Some (string_literal ''Hello World ! (iconified)''),
        pc := PC_set_iconTitle\<rparr>"
  by (subst main_exec_numeral)
     (simp add: exec_6 exec_5 exec_4 exec_3 exec_2 exec_1 main_init_def)

lemma exec_8:
  "main_exec 8 env =
     (main_exec 7 env)
       \<lparr>calls := calls (main_exec 7 env) @
          [Xcb_change_property
             \<lparr>cp_c = connect_result env, cp_mode = XCB_PROP_MODE_REPLACE,
              cp_window = generate_id_result env, cp_property = XCB_ATOM_WM_ICON_NAME,
              cp_type = XCB_ATOM_STRING, cp_format = 8,
              cp_data_len = of_nat (strlen (string_literal ''Hello World ! (iconified)'')),
              cp_data = string_literal ''Hello World ! (iconified)''\<rparr>],
        pc := PC_map_window\<rparr>"
  by (subst main_exec_numeral)
     (simp add: exec_7 exec_6 exec_5 exec_4 exec_3 exec_2 exec_1 main_init_def call_def)

lemma exec_9:
  "main_exec 9 env =
     (main_exec 8 env)
       \<lparr>calls := calls (main_exec 8 env) @
          [Xcb_map_window (connect_result env) (generate_id_result env)],
        pc := PC_flush\<rparr>"
  by (subst main_exec_numeral)
     (simp add: exec_8 exec_7 exec_6 exec_5 exec_4 exec_3 exec_2 exec_1 main_init_def call_def)

lemma exec_10:
  "main_exec 10 env =
     (main_exec 9 env)
       \<lparr>calls := calls (main_exec 9 env) @ [Xcb_flush (connect_result env)],
        pc := PC_loop\<rparr>"
  by (subst main_exec_numeral)
     (simp add: exec_9 exec_8 exec_7 exec_6 exec_5 exec_4 exec_3 exec_2 exec_1
                main_init_def call_def)

lemma main_step_loop: "pc s = PC_loop \<Longrightarrow> main_step env s = s"
  by simp

lemma exec_from_10:
  assumes "10 \<le> n"
  shows "main_exec n env = main_exec 10 env"
  using assms
proof (induction n rule: dec_induct)
  case base
  show ?case by simp
next
  case (step n)
  have "pc (main_exec 10 env) = PC_loop"
    by (simp add: exec_10)
  then have "main_step env (main_exec 10 env) = main_exec 10 env"
    by (rule main_step_loop)
  with step.IH show ?case by simp
qed

text \<open>
  From the tenth step on the program is in the loop: every reachable state is one of
  eleven.
\<close>

lemmas exec_simps =
  exec_1 exec_2 exec_3 exec_4 exec_5 exec_6 exec_7 exec_8 exec_9 exec_10
  main_init_def call_def

lemma main_exec_cases:
  obtains "n = 0" | "n = 1" | "n = 2" | "n = 3" | "n = 4" | "n = 5" | "n = 6" | "n = 7"
    | "n = 8" | "n = 9" | "10 \<le> n" "main_exec n env = main_exec 10 env"
proof -
  have "10 \<le> n \<or> n = 9 \<or> n = 8 \<or> n = 7 \<or> n = 6 \<or> n = 5 \<or> n = 4 \<or> n = 3
    \<or> n = 2 \<or> n = 1 \<or> n = 0"
    by arith
  then show thesis
    using that exec_from_10 [of n env] by blast
qed

lemma example_env_roots: "roots (get_setup_result example_env) \<noteq> []"
  by (simp add: example_env_def)

lemma example_env_no_screen_roots: "roots (get_setup_result example_env_no_screen) = []"
  by (simp add: example_env_no_screen_def)

lemma roots_begin_first:
  "roots R = scr # rest \<Longrightarrow> roots_begin R = scr"
  by (simp add: roots_begin_def)

lemma strlen_title: "strlen (string_literal ''Hello World !'') = 13"
  by (simp add: strlen_def string_literal_def)

lemma strlen_iconTitle: "strlen (string_literal ''Hello World ! (iconified)'') = 25"
  by (simp add: strlen_def string_literal_def)

text \<open>Facts about every reachable state that several claims share.\<close>

lemma pc_run:
  "pc (main_exec n env) =
    [PC_connect, PC_screen, PC_generate_id, PC_create_window, PC_title, PC_set_title,
     PC_iconTitle, PC_set_iconTitle, PC_map_window, PC_flush, PC_loop] ! min n 10"
  by (cases rule: main_exec_cases [where n = n and env = env]) (simp_all add: exec_simps)

lemma call_names_run:
  "map call_name (calls (main_exec n env)) =
     take ([0, 1, 3, 4, 5, 5, 6, 6, 7, 8, 9] ! min n 10)
       [''xcb_connect'', ''xcb_get_setup'', ''xcb_setup_roots_iterator'', ''xcb_generate_id'',
        ''xcb_create_window'', ''xcb_change_property'', ''xcb_change_property'',
        ''xcb_map_window'', ''xcb_flush'']"
  by (cases rule: main_exec_cases [where n = n and env = env]) (simp_all add: exec_simps)

lemma call_names:
  "call_name ` set (calls (main_exec n env)) \<subseteq>
     {''xcb_connect'', ''xcb_get_setup'', ''xcb_setup_roots_iterator'', ''xcb_generate_id'',
      ''xcb_create_window'', ''xcb_change_property'', ''xcb_map_window'', ''xcb_flush''}"
  by (cases rule: main_exec_cases [where n = n and env = env]) (simp_all add: exec_simps)

lemma never_called:
  assumes "name \<notin> {''xcb_connect'', ''xcb_get_setup'', ''xcb_setup_roots_iterator'',
      ''xcb_generate_id'', ''xcb_create_window'', ''xcb_change_property'', ''xcb_map_window'',
      ''xcb_flush''}"
    and "x \<in> set (calls (main_exec n env))"
  shows "call_name x \<noteq> name"
  using assms call_names [of n env] by blast

lemma created_windows_run:
  "created_windows (main_exec n env) =
    (if n < 4 then []
     else [\<lparr>cw_c = connect_result env, cw_depth = 0, cw_wid = generate_id_result env,
            cw_parent = root (roots_begin (get_setup_result env)),
            cw_x = 0, cw_y = 0, cw_width = 250, cw_height = 150,
            cw_border_width = 10, cw_class = XCB_WINDOW_CLASS_INPUT_OUTPUT,
            cw_visual = root_visual (roots_begin (get_setup_result env)),
            cw_value_mask = 0, cw_value_list = NULL\<rparr>])"
  by (cases rule: main_exec_cases [where n = n and env = env])
     (simp_all add: exec_simps created_windows_def)

lemma changed_properties_run:
  "changed_properties (main_exec n env) =
    take (if n < 6 then 0 else if n < 8 then 1 else 2)
      [\<lparr>cp_c = connect_result env, cp_mode = XCB_PROP_MODE_REPLACE,
        cp_window = generate_id_result env, cp_property = XCB_ATOM_WM_NAME,
        cp_type = XCB_ATOM_STRING, cp_format = 8,
        cp_data_len = of_nat (strlen (string_literal ''Hello World !'')),
        cp_data = string_literal ''Hello World !''\<rparr>,
       \<lparr>cp_c = connect_result env, cp_mode = XCB_PROP_MODE_REPLACE,
        cp_window = generate_id_result env, cp_property = XCB_ATOM_WM_ICON_NAME,
        cp_type = XCB_ATOM_STRING, cp_format = 8,
        cp_data_len = of_nat (strlen (string_literal ''Hello World ! (iconified)'')),
        cp_data = string_literal ''Hello World ! (iconified)''\<rparr>]"
  by (cases rule: main_exec_cases [where n = n and env = env])
     (simp_all add: exec_simps changed_properties_def)

lemma property_bytes_title:
  "property_bytes
     \<lparr>cp_c = c, cp_mode = m, cp_window = w, cp_property = p, cp_type = t, cp_format = 8,
      cp_data_len = 13, cp_data = string_literal ''Hello World !''\<rparr> = ''Hello World !''"
  by (simp add: property_bytes_def string_literal_def)

lemma property_bytes_iconTitle:
  "property_bytes
     \<lparr>cp_c = c, cp_mode = m, cp_window = w, cp_property = p, cp_type = t, cp_format = 8,
      cp_data_len = 25, cp_data = string_literal ''Hello World ! (iconified)''\<rparr> =
   ''Hello World ! (iconified)''"
  by (simp add: property_bytes_def string_literal_def)

lemma connect_calls:
  "[x \<leftarrow> calls (main_exec n env). call_name x = ''xcb_connect''] =
     (if n = 0 then [] else [Xcb_connect NULL NULL]) \<and>
   connection (main_exec n env) = (if n = 0 then None else Some (connect_result env)) \<and>
   (n \<noteq> 0 \<longrightarrow> hd (calls (main_exec n env)) = Xcb_connect NULL NULL)"
  by (cases rule: main_exec_cases [where n = n and env = env]) (simp_all add: exec_simps)

lemma window_var:
  "window (main_exec n env) = (if n < 3 then None else Some (generate_id_result env))"
  by (cases rule: main_exec_cases [where n = n and env = env]) (simp_all add: exec_simps)

lemma screen_var:
  "screen (main_exec n env) =
     (if n < 2 then None else Some (Ptr (roots_begin (get_setup_result env))))"
  by (cases rule: main_exec_cases [where n = n and env = env]) (simp_all add: exec_simps)

lemma screen_reads_run:
  "screen_reads (main_exec n env) =
    (if n < 4 then {#} else {#Field_root, Field_root_visual#})"
  by (cases rule: main_exec_cases [where n = n and env = env]) (simp_all add: exec_simps)

lemma loop_stays:
  "pc (main_exec n env) = PC_loop \<Longrightarrow> main_exec (n + k) env = main_exec n env"
  by (induction k) (simp_all add: main_step_loop del: main_step.simps)

section \<open>The claims\<close>

text \<open>
  C1. The library calls are made in one fixed order on every run: \<open>xcb_connect\<close> first,
  then (after the setup, the screen iterator and the new id are obtained)
  \<open>xcb_create_window\<close>, then \<open>xcb_change_property\<close> for WM_NAME, then
  \<open>xcb_change_property\<close> for WM_ICON_NAME, then \<open>xcb_map_window\<close>, then \<open>xcb_flush\<close>, and
  only then the loop. In every reachable state the calls made so far are an initial
  segment of that sequence, so none is skipped, repeated or reordered; a state in the loop
  has made all of them, with the arguments shown (parent and visual are what the reads
  through \<open>screen\<close> find); and whatever the library answers, the loop is entered after
  exactly ten statements.
\<close>

theorem main_call_order:
  "map call_name (calls (main_exec n env)) =
     take (length (calls (main_exec n env)))
       [''xcb_connect'', ''xcb_get_setup'', ''xcb_setup_roots_iterator'', ''xcb_generate_id'',
        ''xcb_create_window'', ''xcb_change_property'', ''xcb_change_property'',
        ''xcb_map_window'', ''xcb_flush''] \<and>
   (pc (main_exec n env) = PC_loop \<longrightarrow>
      calls (main_exec n env) =
        [Xcb_connect NULL NULL,
         Xcb_get_setup (connect_result env),
         Xcb_setup_roots_iterator (get_setup_result env),
         Xcb_generate_id (connect_result env),
         Xcb_create_window
           \<lparr>cw_c = connect_result env, cw_depth = 0, cw_wid = generate_id_result env,
            cw_parent = root (roots_begin (get_setup_result env)),
            cw_x = 0, cw_y = 0, cw_width = 250, cw_height = 150,
            cw_border_width = 10, cw_class = XCB_WINDOW_CLASS_INPUT_OUTPUT,
            cw_visual = root_visual (roots_begin (get_setup_result env)),
            cw_value_mask = 0, cw_value_list = NULL\<rparr>,
         Xcb_change_property
           \<lparr>cp_c = connect_result env, cp_mode = XCB_PROP_MODE_REPLACE,
            cp_window = generate_id_result env, cp_property = XCB_ATOM_WM_NAME,
            cp_type = XCB_ATOM_STRING, cp_format = 8, cp_data_len = 13,
            cp_data = string_literal ''Hello World !''\<rparr>,
         Xcb_change_property
           \<lparr>cp_c = connect_result env, cp_mode = XCB_PROP_MODE_REPLACE,
            cp_window = generate_id_result env, cp_property = XCB_ATOM_WM_ICON_NAME,
            cp_type = XCB_ATOM_STRING, cp_format = 8, cp_data_len = 25,
            cp_data = string_literal ''Hello World ! (iconified)''\<rparr>,
         Xcb_map_window (connect_result env) (generate_id_result env),
         Xcb_flush (connect_result env)]) \<and>
   pc (main_exec 10 env) = PC_loop \<and> (\<forall>k < 10. pc (main_exec k env) \<noteq> PC_loop)"
proof -
  have before: "pc (main_exec k env) \<noteq> PC_loop" if "k < 10" for k
    using that
    by (cases rule: main_exec_cases [where n = k and env = env])
       (simp_all add: exec_simps)
  show ?thesis
    by (cases rule: main_exec_cases [where n = n and env = env])
       (simp_all add: exec_simps before strlen_title strlen_iconTitle)
qed

theorem main_call_order_witness:
  "pc (main_exec 10 example_env_no_screen) = PC_loop \<and>
   (9::nat) < 10 \<and> pc (main_exec 9 example_env_no_screen) \<noteq> PC_loop \<and>
   map call_name (calls (main_exec 10 example_env_no_screen)) =
     [''xcb_connect'', ''xcb_get_setup'', ''xcb_setup_roots_iterator'', ''xcb_generate_id'',
      ''xcb_create_window'', ''xcb_change_property'', ''xcb_change_property'',
      ''xcb_map_window'', ''xcb_flush'']"
  using main_call_order [of 10 example_env_no_screen] by simp

text \<open>
  C2. \<open>main\<close> never returns: whatever the number of steps and whatever the library
  answers, no return value has been produced and \<open>return 0\<close> has not been reached. Every
  state that comes after one in which \<open>xcb_map_window\<close> has been called is in the loop
  (the call is followed by \<open>xcb_flush\<close>, whose successor is the loop).
\<close>

theorem main_never_returns:
  "main n env = None \<and> pc (main_exec n env) \<noteq> PC_return \<and>
   (''xcb_map_window'' \<in> set (map call_name (calls (main_exec n env))) \<longrightarrow> n < m \<longrightarrow>
      pc (main_exec m env) = PC_loop)"
proof -
  have loop: "pc (main_exec m env) = PC_loop" if "10 \<le> m" for m
    using exec_from_10 [OF that] by (simp add: exec_simps)
  show ?thesis
    by (cases rule: main_exec_cases [where n = n and env = env])
       (simp_all add: main_def exec_simps loop)
qed

theorem main_never_returns_witness:
  "''xcb_map_window'' \<in> set (map call_name (calls (main_exec 9 example_env))) \<and>
   (9::nat) < 10 \<and>
   main 9 example_env = None \<and> pc (main_exec 9 example_env) \<noteq> PC_return \<and>
   pc (main_exec 10 example_env) = PC_loop"
proof -
  have h: "''xcb_map_window'' \<in> set (map call_name (calls (main_exec 9 example_env)))"
    by (simp add: exec_simps)
  from main_never_returns [of 9 example_env 10] h show ?thesis
    by simp
qed

text \<open>
  C3. Every run creates exactly one window: whatever the library answers, no
  \<open>xcb_create_window\<close> has been issued before the fourth step and exactly one from the
  fourth step on. After its creation the created window and the arguments it was created
  with are the same in every later state, and no \<open>xcb_destroy_window\<close> and no
  \<open>xcb_configure_window\<close> (the request that moves, resizes or reconfigures a window) is
  ever issued.
\<close>

theorem window_created_once:
  "length (created_windows (main_exec n env)) = (if n < 4 then 0 else 1) \<and>
   (4 \<le> n \<longrightarrow> n \<le> m \<longrightarrow>
      created_windows (main_exec m env) = created_windows (main_exec n env)) \<and>
   (\<forall>x \<in> set (calls (main_exec n env)).
      call_name x \<noteq> ''xcb_destroy_window'' \<and> call_name x \<noteq> ''xcb_configure_window'')"
  by (simp add: created_windows_run never_called)

theorem window_created_once_witness:
  "(4::nat) \<le> 4 \<and> (4::nat) \<le> 10 \<and>
   length (created_windows (main_exec 4 example_env_no_screen)) = 1 \<and>
   created_windows (main_exec 10 example_env_no_screen) =
     created_windows (main_exec 4 example_env_no_screen) \<and>
   Xcb_connect NULL NULL \<in> set (calls (main_exec 4 example_env_no_screen)) \<and>
   call_name (Xcb_connect NULL NULL) \<noteq> ''xcb_destroy_window''"
proof -
  have h: "Xcb_connect NULL NULL \<in> set (calls (main_exec 4 example_env_no_screen))"
    by (simp add: exec_simps)
  from window_created_once [of 4 example_env_no_screen 10] h show ?thesis
    by simp
qed

text \<open>
  C4. The connection is opened once, by the first library call of the run, and never
  closed: from the first step on, the calls made so far contain exactly one
  \<open>xcb_connect\<close>, it is the first of them, and the variable \<open>connection\<close> holds what it
  returned; no state of any run has an \<open>xcb_disconnect\<close> among its calls.
\<close>

theorem connection_never_closed:
  "(1 \<le> n \<longrightarrow>
      [x \<leftarrow> calls (main_exec n env). call_name x = ''xcb_connect''] = [Xcb_connect NULL NULL] \<and>
      hd (calls (main_exec n env)) = Xcb_connect NULL NULL \<and>
      connection (main_exec n env) = Some (connect_result env)) \<and>
   (\<forall>x \<in> set (calls (main_exec n env)). call_name x \<noteq> ''xcb_disconnect'')"
  using connect_calls [of n env] by (simp add: never_called)

theorem connection_never_closed_witness:
  "(1::nat) \<le> 10 \<and>
   [x \<leftarrow> calls (main_exec 10 example_env). call_name x = ''xcb_connect''] =
     [Xcb_connect NULL NULL] \<and>
   connection (main_exec 10 example_env) = Some \<lparr>conn_id = 1, has_error = False\<rparr> \<and>
   Xcb_flush \<lparr>conn_id = 1, has_error = False\<rparr> \<in> set (calls (main_exec 10 example_env)) \<and>
   call_name (Xcb_flush \<lparr>conn_id = 1, has_error = False\<rparr>) \<noteq> ''xcb_disconnect''"
proof -
  have h: "Xcb_flush \<lparr>conn_id = 1, has_error = False\<rparr> \<in> set (calls (main_exec 10 example_env))"
    by (simp add: exec_simps) (simp add: example_env_def)
  from connection_never_closed [of 10 example_env] h show ?thesis
    by (auto simp add: example_env_def)
qed

text \<open>
  C5. The program handles no error. Whatever the library answers, the state after \<open>n\<close>
  steps is at the \<open>n\<close>-th statement of one straight line from \<open>xcb_connect\<close> to the loop.
  Two runs in two environments, however these differ (a connection in error or not, a
  setup with screens or without, any generated id), are at the same statement after the
  same number of steps and have called the same library functions in the same order; and
  neither \<open>xcb_connection_has_error\<close> nor \<open>xcb_request_check\<close> is ever called.
\<close>

theorem no_error_handling:
  "pc (main_exec n env) =
     [PC_connect, PC_screen, PC_generate_id, PC_create_window, PC_title, PC_set_title,
      PC_iconTitle, PC_set_iconTitle, PC_map_window, PC_flush, PC_loop] ! min n 10 \<and>
   pc (main_exec n env') = pc (main_exec n env) \<and>
   map call_name (calls (main_exec n env')) = map call_name (calls (main_exec n env)) \<and>
   (\<forall>x \<in> set (calls (main_exec n env)).
      call_name x \<noteq> ''xcb_connection_has_error'' \<and> call_name x \<noteq> ''xcb_request_check'')"
proof -
  have "pc (main_exec n env') = pc (main_exec n env)"
    by (simp only: pc_run)
  moreover have
    "map call_name (calls (main_exec n env')) = map call_name (calls (main_exec n env))"
    by (simp only: call_names_run)
  ultimately show ?thesis
    using pc_run [of n env] by (simp add: never_called)
qed

theorem no_error_handling_witness:
  "pc (main_exec 10 example_env) = PC_loop \<and>
   pc (main_exec 10 example_env_no_screen) = PC_loop \<and>
   has_error (connect_result example_env_no_screen) \<and>
   roots (get_setup_result example_env_no_screen) = [] \<and>
   Xcb_connect NULL NULL \<in> set (calls (main_exec 10 example_env)) \<and>
   call_name (Xcb_connect NULL NULL) \<noteq> ''xcb_connection_has_error''"
proof -
  have h: "Xcb_connect NULL NULL \<in> set (calls (main_exec 10 example_env))"
    by (simp add: exec_simps)
  have e: "has_error (connect_result example_env_no_screen)"
    by (simp add: example_env_no_screen_def)
  from no_error_handling [of 10 example_env example_env_no_screen] h e
       example_env_no_screen_roots
  show ?thesis
    by simp
qed

text \<open>
  C6. The loop body is empty. A step taken in the loop leaves the whole state as it is
  (program point, variables, the calls made, the reads made); so a run that has reached
  the loop is in the same state any number of steps later; and no run ever calls
  \<open>xcb_wait_for_event\<close> or \<open>xcb_poll_for_event\<close>: no event is read.
\<close>

theorem loop_body_empty:
  "(pc s = PC_loop \<longrightarrow> main_step env s = s) \<and>
   (pc (main_exec n env) = PC_loop \<longrightarrow> main_exec (n + k) env = main_exec n env) \<and>
   (\<forall>x \<in> set (calls (main_exec n env)).
      call_name x \<noteq> ''xcb_wait_for_event'' \<and> call_name x \<noteq> ''xcb_poll_for_event'')"
  using loop_stays [of n env k] main_step_loop [of s env]
  by (simp add: never_called del: main_step.simps)

theorem loop_body_empty_witness:
  "pc (main_exec 10 example_env) = PC_loop \<and>
   main_step example_env (main_exec 10 example_env) = main_exec 10 example_env \<and>
   main_exec (10 + 5) example_env = main_exec 10 example_env \<and>
   Xcb_connect NULL NULL \<in> set (calls (main_exec 10 example_env)) \<and>
   call_name (Xcb_connect NULL NULL) \<noteq> ''xcb_wait_for_event''"
proof -
  have h: "pc (main_exec 10 example_env) = PC_loop"
    "Xcb_connect NULL NULL \<in> set (calls (main_exec 10 example_env))"
    by (simp_all add: exec_simps)
  from loop_body_empty [of "main_exec 10 example_env" example_env 10 5] h show ?thesis
    by (simp del: main_step.simps main_exec.simps)
qed

text \<open>
  C7. The program is a linear sequence of calls into the XCB library, but not of four or
  five: a run that is in the loop has made nine calls, to eight distinct library
  functions (\<open>xcb_change_property\<close> is called twice).
\<close>

theorem call_count:
  "pc (main_exec n env) = PC_loop \<longrightarrow>
     length (calls (main_exec n env)) = 9 \<and>
     length (remdups (map call_name (calls (main_exec n env)))) = 8 \<and>
     set (map call_name (calls (main_exec n env))) =
       {''xcb_connect'', ''xcb_get_setup'', ''xcb_setup_roots_iterator'', ''xcb_generate_id'',
        ''xcb_create_window'', ''xcb_change_property'', ''xcb_map_window'', ''xcb_flush''}"
  by (cases rule: main_exec_cases [where n = n and env = env])
     (simp_all add: exec_simps)

theorem call_count_witness:
  "pc (main_exec 10 example_env) = PC_loop \<and>
   length (calls (main_exec 10 example_env)) = 9 \<and>
   length (remdups (map call_name (calls (main_exec 10 example_env)))) = 8"
proof -
  have h: "pc (main_exec 10 example_env) = PC_loop"
    by (simp add: exec_simps)
  from call_count [of 10 example_env] h show ?thesis
    by simp
qed

text \<open>
  With one screen in the setup the loop is reached after nine calls to eight functions:
  neither count is four or five.
\<close>

theorem call_count_counterexample:
  "pc (main_exec 10 example_env) = PC_loop \<and>
   length (calls (main_exec 10 example_env)) \<noteq> 4 \<and>
   length (calls (main_exec 10 example_env)) \<noteq> 5 \<and>
   length (remdups (map call_name (calls (main_exec 10 example_env)))) \<noteq> 4 \<and>
   length (remdups (map call_name (calls (main_exec 10 example_env)))) \<noteq> 5"
  by (simp add: exec_simps)

text \<open>
  C8. Every \<open>xcb_create_window\<close> the program issues, in any state of any run, has
  position (0, 0), width 250, height 150, border width 10, depth 0, class INPUT_OUTPUT,
  value mask 0 and a null value list. When the setup has a first screen, the parent is
  that screen's root window and the visual that screen's root visual.
\<close>

theorem create_window_parameters:
  "\<forall>a \<in> set (created_windows (main_exec n env)).
     cw_x a = 0 \<and> cw_y a = 0 \<and> cw_width a = 250 \<and> cw_height a = 150 \<and>
     cw_border_width a = 10 \<and> cw_depth a = 0 \<and>
     cw_class a = XCB_WINDOW_CLASS_INPUT_OUTPUT \<and>
     cw_value_mask a = 0 \<and> cw_value_list a = NULL \<and>
     (\<forall>scr rest. roots (get_setup_result env) = scr # rest \<longrightarrow>
        cw_parent a = root scr \<and> cw_visual a = root_visual scr)"
  by (auto simp add: created_windows_run roots_begin_first)

theorem create_window_parameters_witness:
  "\<lparr>cw_c = \<lparr>conn_id = 1, has_error = False\<rparr>, cw_depth = 0, cw_wid = 0x400000,
     cw_parent = 0x123, cw_x = 0, cw_y = 0, cw_width = 250, cw_height = 150,
     cw_border_width = 10, cw_class = XCB_WINDOW_CLASS_INPUT_OUTPUT,
     cw_visual = 0x21, cw_value_mask = 0, cw_value_list = NULL\<rparr>
     \<in> set (created_windows (main_exec 10 example_env)) \<and>
   roots (get_setup_result example_env) = [\<lparr>root = 0x123, root_visual = 0x21\<rparr>]"
proof -
  have r: "roots (get_setup_result example_env) = [\<lparr>root = 0x123, root_visual = 0x21\<rparr>]"
    by (simp add: example_env_def)
  have h: "created_windows (main_exec 10 example_env) \<noteq> []"
    "cw_c (hd (created_windows (main_exec 10 example_env))) =
       \<lparr>conn_id = 1, has_error = False\<rparr>"
    "cw_wid (hd (created_windows (main_exec 10 example_env))) = 0x400000"
    by (simp_all add: created_windows_run) (simp_all add: example_env_def)
  then have m: "hd (created_windows (main_exec 10 example_env))
      \<in> set (created_windows (main_exec 10 example_env))"
    by simp
  from create_window_parameters [of 10 example_env] m r
  have "cw_x (hd (created_windows (main_exec 10 example_env))) = 0"
    "cw_y (hd (created_windows (main_exec 10 example_env))) = 0"
    "cw_width (hd (created_windows (main_exec 10 example_env))) = 250"
    "cw_height (hd (created_windows (main_exec 10 example_env))) = 150"
    "cw_border_width (hd (created_windows (main_exec 10 example_env))) = 10"
    "cw_depth (hd (created_windows (main_exec 10 example_env))) = 0"
    "cw_class (hd (created_windows (main_exec 10 example_env))) = XCB_WINDOW_CLASS_INPUT_OUTPUT"
    "cw_value_mask (hd (created_windows (main_exec 10 example_env))) = 0"
    "cw_value_list (hd (created_windows (main_exec 10 example_env))) = NULL"
    "cw_parent (hd (created_windows (main_exec 10 example_env))) = 0x123"
    "cw_visual (hd (created_windows (main_exec 10 example_env))) = 0x21"
    by simp_all
  with h have "hd (created_windows (main_exec 10 example_env)) =
    \<lparr>cw_c = \<lparr>conn_id = 1, has_error = False\<rparr>, cw_depth = 0, cw_wid = 0x400000,
     cw_parent = 0x123, cw_x = 0, cw_y = 0, cw_width = 250, cw_height = 150,
     cw_border_width = 10, cw_class = XCB_WINDOW_CLASS_INPUT_OUTPUT,
     cw_visual = 0x21, cw_value_mask = 0, cw_value_list = NULL\<rparr>"
    by simp
  with m r show ?thesis
    by simp
qed

text \<open>
  The claim as it stands, with parent and visual always those of the first screen, fails
  where the setup has no screen, as the setup of a failed connection: the window is
  created all the same, with the parent and the visual read from the memory that follows
  the setup.
\<close>

theorem create_window_parameters_counterexample:
  "roots (get_setup_result example_env_no_screen) = [] \<and>
   created_windows (main_exec 10 example_env_no_screen) =
     [\<lparr>cw_c = \<lparr>conn_id = 2, has_error = True\<rparr>, cw_depth = 0, cw_wid = 0xFFFFFFFF,
       cw_parent = 0x6, cw_x = 0, cw_y = 0, cw_width = 250, cw_height = 150,
       cw_border_width = 10, cw_class = XCB_WINDOW_CLASS_INPUT_OUTPUT,
       cw_visual = 0x0, cw_value_mask = 0, cw_value_list = NULL\<rparr>]"
  by (simp add: created_windows_run roots_begin_def example_env_no_screen_def)

text \<open>
  C9. Every \<open>xcb_change_property\<close> the program issues uses replace mode, type STRING and
  format 8, names the window id that \<open>xcb_generate_id\<close> returned (the value of the
  variable \<open>window\<close>, and the id of the created window), and passes as length the
  \<open>strlen\<close> of its data. In the order issued, the properties, lengths and bytes sent are
  an initial segment of: WM_NAME with the 13 bytes of \<open>Hello World !\<close>, then WM_ICON_NAME
  with the 25 bytes of \<open>Hello World ! (iconified)\<close>; from the \<open>xcb_map_window\<close> statement
  on, both have been sent.
\<close>

theorem title_properties:
  "(\<forall>a \<in> set (changed_properties (main_exec n env)).
      cp_mode a = XCB_PROP_MODE_REPLACE \<and>
      cp_window a = generate_id_result env \<and>
      window (main_exec n env) = Some (cp_window a) \<and>
      (\<forall>w \<in> set (created_windows (main_exec n env)). cw_wid w = cp_window a) \<and>
      cp_type a = XCB_ATOM_STRING \<and> cp_format a = 8 \<and>
      cp_data_len a = of_nat (strlen (cp_data a))) \<and>
   map (\<lambda>a. (cp_property a, unat (cp_data_len a), property_bytes a))
       (changed_properties (main_exec n env)) =
     take (length (changed_properties (main_exec n env)))
       [(XCB_ATOM_WM_NAME, 13, ''Hello World !''),
        (XCB_ATOM_WM_ICON_NAME, 25, ''Hello World ! (iconified)'')] \<and>
   (pc (main_exec n env) \<in> {PC_map_window, PC_flush, PC_loop} \<longrightarrow>
      length (changed_properties (main_exec n env)) = 2)"
proof -
  have late: "pc (main_exec n env) \<in> {PC_map_window, PC_flush, PC_loop} \<longrightarrow> 8 \<le> n"
    by (cases rule: main_exec_cases [where n = n and env = env])
       (simp_all add: exec_simps)
  consider "n < 6" | "6 \<le> n" "n < 8" | "8 \<le> n"
    by linarith
  then show ?thesis
  proof cases
    case 1
    with late show ?thesis
      by (simp add: changed_properties_run)
  next
    case 2
    with late show ?thesis
      by (simp add: changed_properties_run created_windows_run window_var
            property_bytes_title strlen_title)
  next
    case 3
    with late show ?thesis
      by (simp add: changed_properties_run created_windows_run window_var
            property_bytes_title property_bytes_iconTitle strlen_title strlen_iconTitle)
  qed
qed

theorem title_properties_witness:
  "pc (main_exec 10 example_env) \<in> {PC_map_window, PC_flush, PC_loop} \<and>
   map (\<lambda>a. (cp_property a, unat (cp_data_len a), property_bytes a))
       (changed_properties (main_exec 10 example_env)) =
     [(XCB_ATOM_WM_NAME, 13, ''Hello World !''),
      (XCB_ATOM_WM_ICON_NAME, 25, ''Hello World ! (iconified)'')] \<and>
   (\<exists>a \<in> set (changed_properties (main_exec 10 example_env)).
      cp_property a = XCB_ATOM_WM_NAME \<and> cp_mode a = XCB_PROP_MODE_REPLACE \<and>
      cp_window a = 0x400000 \<and>
      (\<exists>w \<in> set (created_windows (main_exec 10 example_env)). cw_wid w = cp_window a))"
proof -
  have h: "pc (main_exec 10 example_env) \<in> {PC_map_window, PC_flush, PC_loop}"
    by (simp add: exec_simps)
  have p: "changed_properties (main_exec 10 example_env) \<noteq> []"
    "hd (changed_properties (main_exec 10 example_env))
       \<in> set (changed_properties (main_exec 10 example_env))"
    "cp_property (hd (changed_properties (main_exec 10 example_env))) = XCB_ATOM_WM_NAME"
    by (simp_all add: changed_properties_run)
  have w: "created_windows (main_exec 10 example_env) \<noteq> []"
    by (simp add: created_windows_run)
  have g: "generate_id_result example_env = 0x400000"
    by (simp add: example_env_def)
  from title_properties [of 10 example_env] h have
    len: "length (changed_properties (main_exec 10 example_env)) = 2" and
    seq: "map (\<lambda>a. (cp_property a, unat (cp_data_len a), property_bytes a))
       (changed_properties (main_exec 10 example_env)) =
     take (length (changed_properties (main_exec 10 example_env)))
       [(XCB_ATOM_WM_NAME, 13, ''Hello World !''),
        (XCB_ATOM_WM_ICON_NAME, 25, ''Hello World ! (iconified)'')]" and
    each: "\<forall>a \<in> set (changed_properties (main_exec 10 example_env)).
      cp_mode a = XCB_PROP_MODE_REPLACE \<and>
      cp_window a = generate_id_result example_env \<and>
      (\<forall>w \<in> set (created_windows (main_exec 10 example_env)). cw_wid w = cp_window a)"
    by blast+
  from w obtain x where x: "x \<in> set (created_windows (main_exec 10 example_env))"
    by (cases "created_windows (main_exec 10 example_env)") auto
  from each p(2) x have
    "cp_mode (hd (changed_properties (main_exec 10 example_env))) = XCB_PROP_MODE_REPLACE"
    "cp_window (hd (changed_properties (main_exec 10 example_env))) = 0x400000"
    "cw_wid x = cp_window (hd (changed_properties (main_exec 10 example_env)))"
    by (simp_all add: g)
  with p x have ex: "\<exists>a \<in> set (changed_properties (main_exec 10 example_env)).
      cp_property a = XCB_ATOM_WM_NAME \<and> cp_mode a = XCB_PROP_MODE_REPLACE \<and>
      cp_window a = 0x400000 \<and>
      (\<exists>w \<in> set (created_windows (main_exec 10 example_env)). cw_wid w = cp_window a)"
    by blast
  from seq len have "map (\<lambda>a. (cp_property a, unat (cp_data_len a), property_bytes a))
       (changed_properties (main_exec 10 example_env)) =
     [(XCB_ATOM_WM_NAME, 13, ''Hello World !''),
      (XCB_ATOM_WM_ICON_NAME, 25, ''Hello World ! (iconified)'')]"
    by simp
  with h ex show ?thesis
    by blast
qed

text \<open>
  C10. \<open>screen\<close> is the \<open>data\<close> of the roots iterator of the setup, and \<open>main\<close> reads
  \<open>screen->root\<close> and \<open>screen->root_visual\<close> through it with no test before: whatever the
  library answers, no read has been made through it before the \<open>xcb_create_window\<close>
  statement and exactly these two, once each, from then on. When the setup has at least
  one screen, \<open>screen\<close> points at the first screen from the second step on, and no state
  of the run is the null-pointer fault.
\<close>

theorem screen_dereference:
  "screen_reads (main_exec n env) =
     (if n < 4 then {#} else {#Field_root, Field_root_visual#}) \<and>
   (roots (get_setup_result env) \<noteq> [] \<longrightarrow>
      pc (main_exec n env) \<noteq> PC_fault \<and>
      screen (main_exec n env) \<noteq> Some NULL \<and>
      screen (main_exec n env) =
        (if n < 2 then None else Some (Ptr (hd (roots (get_setup_result env))))))"
proof -
  have "pc (main_exec n env) \<noteq> PC_fault"
    by (cases rule: main_exec_cases [where n = n and env = env])
       (simp_all add: exec_simps)
  then show ?thesis
    by (simp add: screen_var screen_reads_run roots_begin_def split: list.split)
qed

theorem screen_dereference_witness:
  "roots (get_setup_result example_env) \<noteq> [] \<and>
   pc (main_exec 10 example_env) \<noteq> PC_fault \<and>
   screen (main_exec 10 example_env) = Some (Ptr \<lparr>root = 0x123, root_visual = 0x21\<rparr>) \<and>
   screen_reads (main_exec 10 example_env) = {#Field_root, Field_root_visual#}"
proof -
  have hd: "hd (roots (get_setup_result example_env)) = \<lparr>root = 0x123, root_visual = 0x21\<rparr>"
    by (simp add: example_env_def)
  from screen_dereference [of 10 example_env] example_env_roots hd
  show ?thesis
    by simp
qed

end
